theory Spec2Isabelle
  imports Complex_Main
begin

section \<open>Values, exceptions and rows\<close>

text \<open>
  A cell of a data frame, as a row handed to the scorer sees it: a number (integers and
  floats are both embedded in the rationals, so arithmetic is exact and floating-point
  rounding is outside the model), the missing value NaN, a string, or a boolean.
\<close>

datatype cell = Num rat | NaN | Str string | Bool bool

text \<open>The exceptions the pipeline can raise, each with its message.\<close>

datatype exn =
    KeyError string
  | TypeError string
  | FileNotFoundError string
  | HTTPError nat
  | RequestException string
  | ParserError string
  | Exception string

type_synonym row = "string \<rightharpoonup> cell"

section \<open>Scorer\<close>

text \<open>
  The bodies of \<open>calculate_off_points\<close> and \<open>calculate_def_points\<close> are straight-line
  sequences of three kinds of statement on the running \<open>total\<close> (written \<open>t\<close> below):
  \<^verbatim>\<open>total += row[f] / k\<close>, \<^verbatim>\<open>total += row[f] * k\<close> and \<^verbatim>\<open>total -= row[f] * k\<close>.
\<close>

datatype stmt = AddDiv string rat | AddMul string rat | SubMul string rat

fun field_of :: "stmt \<Rightarrow> string" where
  "field_of (AddDiv f k) = f"
| "field_of (AddMul f k) = f"
| "field_of (SubMul f k) = f"

fun update_total :: "stmt \<Rightarrow> rat \<Rightarrow> rat \<Rightarrow> rat" where
  "update_total (AddDiv f k) t r = t + r / k"
| "update_total (AddMul f k) t r = t + r * k"
| "update_total (SubMul f k) t r = t - r * k"

text \<open>Arithmetic with NaN on either side gives NaN.\<close>

fun accumulate :: "stmt \<Rightarrow> cell \<Rightarrow> rat \<Rightarrow> cell" where
  "accumulate s (Num t) r = Num (update_total s t r)"
| "accumulate s t r = NaN"

text \<open>
  One statement: \<open>row[f]\<close> raises KeyError when the row has no field \<open>f\<close>; a string
  operand raises TypeError (in the operator itself, or when the product is added to the
  numeric total); a boolean counts as 0 or 1.
\<close>

fun exec_stmt :: "row \<Rightarrow> stmt \<Rightarrow> cell \<Rightarrow> exn + cell" where
  "exec_stmt row s t =
     (case row (field_of s) of
        None \<Rightarrow> Inl (KeyError (field_of s))
      | Some (Str v) \<Rightarrow> Inl (TypeError ''unsupported operand type(s)'')
      | Some NaN \<Rightarrow> Inr NaN
      | Some (Num r) \<Rightarrow> Inr (accumulate s t r)
      | Some (Bool b) \<Rightarrow> Inr (accumulate s t (if b then 1 else 0)))"

fun exec_stmts :: "row \<Rightarrow> stmt list \<Rightarrow> cell \<Rightarrow> exn + cell" where
  "exec_stmts row [] t = Inr t"
| "exec_stmts row (s # ss) t =
     (case exec_stmt row s t of
        Inl e \<Rightarrow> Inl e
      | Inr t' \<Rightarrow> exec_stmts row ss t')"

definition off_body :: "stmt list" where
  "off_body =
    [AddDiv ''passing_yards'' 25,
     AddMul ''passing_tds'' 4,
     SubMul ''passing_interceptions'' 2,
     SubMul ''sacks_suffered'' (1 / 2),
     SubMul ''sack_fumbles_lost'' 2,
     AddMul ''passing_2pt_conversions'' 2,
     AddDiv ''rushing_yards'' 10,
     AddMul ''rushing_tds'' 6,
     SubMul ''rushing_fumbles_lost'' 2,
     AddMul ''rushing_2pt_conversions'' 2,
     AddMul ''receptions'' (1 / 2),
     AddDiv ''receiving_yards'' 10,
     AddMul ''receiving_tds'' 6,
     SubMul ''receiving_fumbles_lost'' 2,
     AddMul ''receiving_2pt_conversions'' 2,
     AddMul ''special_teams_tds'' 15,
     AddDiv ''punt_return_yards'' 20,
     AddDiv ''kickoff_return_yards'' 20]"

definition calculate_off_points :: "row \<Rightarrow> exn + cell" where
  "calculate_off_points row = exec_stmts row off_body (Num 0)"

definition def_body :: "stmt list" where
  "def_body =
    [AddMul ''def_tackles_solo'' 1,
     AddMul ''def_tackle_assists'' (1 / 2),
     AddMul ''def_tackles_for_loss'' 2,
     AddMul ''def_fumbles_forced'' 5,
     AddMul ''def_sacks'' 4,
     AddMul ''def_interceptions'' 7,
     AddMul ''def_pass_defended'' 3,
     AddMul ''def_tds'' 6,
     AddMul ''def_safeties'' 2,
     AddMul ''fumble_recovery_opp'' 3,
     AddMul ''fumble_recovery_tds'' 6]"

definition calculate_def_points :: "row \<Rightarrow> exn + cell" where
  "calculate_def_points row = exec_stmts row def_body (Num 0)"

text \<open>Python's \<open>x in [s1, ..., sn]\<close> for string literals: only an equal string is a member.\<close>

fun py_in :: "cell \<Rightarrow> string list \<Rightarrow> bool" where
  "py_in (Str s) xs = (s \<in> set xs)"
| "py_in c xs = False"

definition offensive_groups :: "string list" where
  "offensive_groups = [''QB'', ''RB'', ''WR'', ''TE'']"

definition defensive_groups :: "string list" where
  "defensive_groups = [''DL'', ''LB'', ''DB'']"

definition calculate_fantasy_points :: "row \<Rightarrow> exn + cell" where
  "calculate_fantasy_points row =
     (case row ''position_group'' of
        None \<Rightarrow> Inl (KeyError ''position_group'')
      | Some g \<Rightarrow>
          if py_in g offensive_groups then calculate_off_points row
          else if py_in g defensive_groups then calculate_def_points row
          else Inr (Num 0))"

text \<open>
  Reading a statistic of a record for the formulas below, and the check that a record
  carries a number under each field a formula reads.
\<close>

definition stat :: "row \<Rightarrow> string \<Rightarrow> rat" where
  "stat row f = (case row f of Some (Num r) \<Rightarrow> r | _ \<Rightarrow> 0)"

definition has_number :: "row \<Rightarrow> string \<Rightarrow> bool" where
  "has_number row f = (case row f of Some (Num r) \<Rightarrow> True | _ \<Rightarrow> False)"

definition has_numbers :: "row \<Rightarrow> stmt list \<Rightarrow> bool" where
  "has_numbers row body = list_all (\<lambda>s. has_number row (field_of s)) body"

section \<open>Data frames\<close>

text \<open>
  A data frame is column-oriented: an index of \<open>nrows\<close> rows and named columns, each
  with a dtype and its cells. Column names are distinct in every frame that
  \<open>pd.read_csv\<close> builds (it renames duplicates), so a name is looked up with \<open>map_of\<close>.
\<close>

datatype dtype = Float64 | Int64 | BoolT | Object

type_synonym column = "dtype \<times> cell list"

record dataframe =
  nrows :: nat
  cols :: "(string \<times> column) list"

definition columns :: "dataframe \<Rightarrow> string list" where
  "columns df = map fst (cols df)"

text \<open>\<open>df[names]\<close>: the listed columns in the listed order; KeyError if one is absent.\<close>

definition getitem_cols :: "dataframe \<Rightarrow> string list \<Rightarrow> exn + dataframe" where
  "getitem_cols df names =
     (case filter (\<lambda>n. map_of (cols df) n = None) names of
        [] \<Rightarrow> Inr (df\<lparr>cols := map (\<lambda>n. (n, the (map_of (cols df) n))) names\<rparr>)
      | n # ns \<Rightarrow> Inl (KeyError n))"

text \<open>\<open>df[name]\<close>: one column; KeyError if it is absent.\<close>

definition getitem_col :: "dataframe \<Rightarrow> string \<Rightarrow> exn + column" where
  "getitem_col df name =
     (case map_of (cols df) name of
        None \<Rightarrow> Inl (KeyError name)
      | Some c \<Rightarrow> Inr c)"

definition isin :: "column \<Rightarrow> string list \<Rightarrow> bool list" where
  "isin c vs = map (\<lambda>x. py_in x vs) (snd c)"

definition select_rows :: "bool list \<Rightarrow> 'a list \<Rightarrow> 'a list" where
  "select_rows keep xs = map snd (filter fst (zip keep xs))"

text \<open>\<open>df[mask]\<close>: the rows where the boolean mask holds; dtypes are kept.\<close>

definition getitem_mask :: "dataframe \<Rightarrow> bool list \<Rightarrow> dataframe" where
  "getitem_mask df keep =
     \<lparr>nrows = length (filter (\<lambda>b. b) keep),
      cols = map (\<lambda>(n, t, cs). (n, t, select_rows keep cs)) (cols df)\<rparr>"

definition fillna0 :: "cell \<Rightarrow> cell" where
  "fillna0 c = (case c of NaN \<Rightarrow> Num 0 | _ \<Rightarrow> c)"

definition is_numeric :: "dtype \<Rightarrow> bool" where
  "is_numeric t = (t = Float64 \<or> t = Int64)"

text \<open>
  \<open>numeric_columns = df.select_dtypes(include=['float64', 'int64']).columns\<close> followed by
  \<open>df[numeric_columns] = df[numeric_columns].fillna(0)\<close>.
\<close>

definition fill_numeric :: "dataframe \<Rightarrow> dataframe" where
  "fill_numeric df =
     df\<lparr>cols := map (\<lambda>(n, t, cs). if is_numeric t then (n, t, map fillna0 cs) else (n, t, cs))
                    (cols df)\<rparr>"

text \<open>\<open>df[name] = column\<close>: replaces the column of that name, or appends a new one.\<close>

definition setitem :: "dataframe \<Rightarrow> string \<Rightarrow> column \<Rightarrow> dataframe" where
  "setitem df name c =
     df\<lparr>cols := (if name \<in> set (columns df)
                 then map (\<lambda>(m, x). if m = name then (m, c) else (m, x)) (cols df)
                 else cols df @ [(name, c)])\<rparr>"

text \<open>
  Row \<open>i\<close> as a record from column name to cell (\<open>df.apply(..., axis=1)\<close> and
  \<open>df.to_dict('records')\<close> both hand rows out in index order).
\<close>

definition row_at :: "dataframe \<Rightarrow> nat \<Rightarrow> row" where
  "row_at df i =
     map_of (List.map_filter
               (\<lambda>(n, t, cs). if i < length cs then Some (n, cs ! i) else None) (cols df))"

definition rows_of :: "dataframe \<Rightarrow> row list" where
  "rows_of df = map (row_at df) [0..<nrows df]"

section \<open>Normalizer\<close>

definition needed_cols :: "string list" where
  "needed_cols =
    [''player_name'', ''player_display_name'', ''position'', ''position_group'', ''recent_team'',
     ''passing_yards'', ''passing_tds'', ''passing_interceptions'', ''sacks_suffered'',
     ''sack_fumbles_lost'', ''passing_2pt_conversions'',
     ''rushing_yards'', ''rushing_tds'', ''rushing_fumbles_lost'', ''rushing_2pt_conversions'',
     ''receptions'', ''receiving_yards'', ''receiving_tds'', ''receiving_fumbles_lost'',
     ''receiving_2pt_conversions'', ''special_teams_tds'',
     ''def_tackles_solo'', ''def_tackle_assists'', ''def_tackles_for_loss'', ''def_fumbles_forced'',
     ''def_sacks'', ''def_interceptions'', ''def_pass_defended'', ''def_tds'', ''def_fumbles'',
     ''def_safeties'', ''fumble_recovery_opp'', ''fumble_recovery_tds'',
     ''punt_return_yards'', ''kickoff_return_yards'',
     ''fg_made'', ''fg_att'', ''fg_made_distance'', ''pat_made'', ''pat_att'']"

definition position_groups :: "string list" where
  "position_groups = [''QB'', ''RB'', ''WR'', ''TE'', ''DL'', ''LB'', ''DB'', ''ST'']"

text \<open>The projection step: \<open>available_cols\<close> and \<open>df[available_cols].copy()\<close>.\<close>

definition available_cols :: "dataframe \<Rightarrow> string list" where
  "available_cols df = filter (\<lambda>col. col \<in> set (columns df)) needed_cols"

definition project :: "dataframe \<Rightarrow> exn + dataframe" where
  "project df = getitem_cols df (available_cols df)"

definition filter_and_prepare_data :: "dataframe \<Rightarrow> exn + dataframe" where
  "filter_and_prepare_data df =
     (case project df of
        Inl e \<Rightarrow> Inl e
      | Inr df_filtered \<Rightarrow>
          (case getitem_col df_filtered ''position_group'' of
             Inl e \<Rightarrow> Inl e
           | Inr pg \<Rightarrow> Inr (fill_numeric (getitem_mask df_filtered (isin pg position_groups)))))"

text \<open>The two steps the Normalizer applies to each projected column.\<close>

definition masked :: "bool list \<Rightarrow> column \<Rightarrow> column" where
  "masked keep c = (fst c, select_rows keep (snd c))"

definition filled :: "column \<Rightarrow> column" where
  "filled c = (if is_numeric (fst c) then (fst c, map fillna0 (snd c)) else c)"

section \<open>Adding the score column\<close>

fun apply_rows :: "(row \<Rightarrow> exn + cell) \<Rightarrow> row list \<Rightarrow> exn + cell list" where
  "apply_rows f [] = Inr []"
| "apply_rows f (r # rs) =
     (case f r of
        Inl e \<Rightarrow> Inl e
      | Inr v \<Rightarrow> (case apply_rows f rs of Inl e \<Rightarrow> Inl e | Inr vs \<Rightarrow> Inr (v # vs)))"

text \<open>The dtype of the new column plays no role later; it is recorded as float64.\<close>

definition add_fantasy_points :: "dataframe \<Rightarrow> exn + dataframe" where
  "add_fantasy_points df =
     (case apply_rows calculate_fantasy_points (rows_of df) of
        Inl e \<Rightarrow> Inl e
      | Inr vs \<Rightarrow> Inr (setitem df ''fantasy_points'' (Float64, vs)))"

section \<open>Strings\<close>

definition digit_char :: "nat \<Rightarrow> char" where
  "digit_char d = char_of (48 + d)"

fun str_nat :: "nat \<Rightarrow> string" where
  "str_nat n = (if n < 10 then [digit_char n] else str_nat (n div 10) @ [digit_char (n mod 10)])"

declare str_nat.simps [simp del]

text \<open>An integer inside an f-string.\<close>

definition str_int :: "int \<Rightarrow> string" where
  "str_int i = (if i < 0 then CHR ''-'' # str_nat (nat (- i)) else str_nat (nat i))"

definition lower_char :: "char \<Rightarrow> char" where
  "lower_char c =
     (let n = (of_char c :: nat) in if 65 \<le> n \<and> n \<le> 90 then char_of (n + 32) else c)"

definition lower :: "string \<Rightarrow> string" where
  "lower s = map lower_char s"

section \<open>Data loader\<close>

text \<open>
  An HTTP response with its status code and body. A call of the \<open>requests\<close> library either
  returns a response or raises (connection error, timeout): \<open>exn + response\<close>.
\<close>

datatype response = Response (status_code: nat) (content: string)

type_synonym files = "string \<rightharpoonup> string"

definition file_name :: "int \<Rightarrow> string" where
  "file_name season = ''stats_player_post_'' @ str_int season @ ''.csv''"

definition base_url :: string where
  "base_url = ''https://github.com/nflverse/nflverse-data/releases/download/stats_player''"

text \<open>The last path component of the URL that is fetched.\<close>

definition remote_file_name :: "int \<Rightarrow> string \<Rightarrow> string" where
  "remote_file_name season season_type =
     ''stats_player_'' @ lower season_type @ ''_'' @ str_int season @ ''.csv''"

definition url :: "int \<Rightarrow> string \<Rightarrow> string" where
  "url season season_type = base_url @ ''/'' @ remote_file_name season season_type"

text \<open>\<open>response.raise_for_status()\<close> raises for the 4xx and 5xx codes.\<close>

definition raise_for_status :: "response \<Rightarrow> exn + unit" where
  "raise_for_status r =
     (if 400 \<le> status_code r \<and> status_code r < 600 then Inl (HTTPError (status_code r))
      else Inr ())"

text \<open>
  \<open>pd.read_csv(name)\<close>: the parser is the library's, taken as the parameter \<open>read_csv\<close> from
  file contents to a frame or a parse error; a file that does not exist cannot be read.
\<close>

definition pd_read_csv ::
  "(string \<Rightarrow> exn + dataframe) \<Rightarrow> files \<Rightarrow> string \<Rightarrow> exn + dataframe" where
  "pd_read_csv read_csv fs name =
     (case fs name of
        None \<Rightarrow> Inl (FileNotFoundError name)
      | Some c \<Rightarrow> read_csv c)"

text \<open>
  The fetch succeeds when \<open>requests.get\<close> returns and \<open>raise_for_status\<close> does not raise;
  it fails on a network error or timeout and on a 4xx or 5xx status.
\<close>

definition fetch_ok :: "exn + response \<Rightarrow> bool" where
  "fetch_ok out =
     (case out of
        Inl e \<Rightarrow> False
      | Inr r \<Rightarrow> \<not> (400 \<le> status_code r \<and> status_code r < 600))"

text \<open>The body of the \<open>try\<close> block: fetch, check the status, save the file, read it back.\<close>

definition try_download ::
  "(string \<Rightarrow> exn + response) \<Rightarrow> (string \<Rightarrow> exn + dataframe) \<Rightarrow> int \<Rightarrow> string \<Rightarrow> files
     \<Rightarrow> (exn + dataframe) \<times> files" where
  "try_download requests_get read_csv season season_type fs =
     (case requests_get (url season season_type) of
        Inl e \<Rightarrow> (Inl e, fs)
      | Inr resp \<Rightarrow>
          (case raise_for_status resp of
             Inl e \<Rightarrow> (Inl e, fs)
           | Inr u \<Rightarrow>
               (let fs' = fs(file_name season \<mapsto> content resp)
                in (pd_read_csv read_csv fs' (file_name season), fs'))))"

text \<open>The whole function: any exception of the \<open>try\<close> block leads to the local file.\<close>

definition download_nflverse_data ::
  "(string \<Rightarrow> exn + response) \<Rightarrow> (string \<Rightarrow> exn + dataframe) \<Rightarrow> int \<Rightarrow> string \<Rightarrow> files
     \<Rightarrow> (exn + dataframe) \<times> files" where
  "download_nflverse_data requests_get read_csv season season_type fs =
     (case try_download requests_get read_csv season season_type fs of
        (Inr df, fs') \<Rightarrow> (Inr df, fs')
      | (Inl e, fs') \<Rightarrow>
          (if file_name season \<in> dom fs'
           then (pd_read_csv read_csv fs' (file_name season), fs')
           else (Inl (FileNotFoundError
                        (''Could not download data and local file '' @ file_name season
                           @ '' does not exist.'')), fs')))"

section \<open>Persister\<close>

definition connect_to_supabase :: "string \<times> (string \<times> string) list" where
  "connect_to_supabase =
     (let base = ''https://cnfshlzatausdprfjjii.supabase.co'';
          api_key = ''sb_publishable_oyyGrWERz6v_9EZ024U6Gg_k9oT-UBd'';
          rest_url = base @ ''/rest/v1'';
          headers = [(''apikey'', api_key),
                     (''Authorization'', ''Bearer '' @ api_key),
                     (''Content-Type'', ''application/json''),
                     (''Prefer'', ''return=minimal'')]
      in (rest_url, headers))"

text \<open>
  The remote store is outside the program. It is modelled by the requests the program has
  sent to it, in order, and by the rows of the season's table, under the assumption that
  the store carries out a request exactly when it answers with a 2xx status: a DELETE
  empties the table, a POST appends its rows.
\<close>

datatype request = DELETE string | POST string "row list" | GET string

record store =
  table :: "row list"
  sent :: "request list"

definition acknowledged :: "exn + response \<Rightarrow> bool" where
  "acknowledged out =
     (case out of Inl e \<Rightarrow> False | Inr r \<Rightarrow> 200 \<le> status_code r \<and> status_code r < 300)"

definition send :: "request \<Rightarrow> exn + response \<Rightarrow> store \<Rightarrow> store" where
  "send req out st =
     \<lparr>table = (if acknowledged out
               then (case req of
                       DELETE u \<Rightarrow> []
                     | POST u b \<Rightarrow> table st @ b
                     | GET u \<Rightarrow> table st)
               else table st),
      sent = sent st @ [req]\<rparr>"

text \<open>\<open>range(i, stop, step)\<close> for a positive step, and the slice \<open>xs[i:j]\<close> for \<open>i \<le> j\<close>.\<close>

function py_range :: "nat \<Rightarrow> nat \<Rightarrow> nat \<Rightarrow> nat list" where
  "py_range i stop step =
     (if 0 < step \<and> i < stop then i # py_range (i + step) stop step else [])"
  by pat_completeness auto
termination
  by (relation "measure (\<lambda>(i, stop, step). stop - i)") auto

declare py_range.simps [simp del]

definition slice :: "'a list \<Rightarrow> nat \<Rightarrow> nat \<Rightarrow> 'a list" where
  "slice xs i j = take (j - i) (drop i xs)"

definition batch_size :: nat where
  "batch_size = 500"

text \<open>The batches the insert loop forms, one for each index of its range.\<close>

definition batches :: "'a list \<Rightarrow> 'a list list" where
  "batches records =
     map (\<lambda>i. slice records i (i + batch_size)) (py_range 0 (length records) batch_size)"

text \<open>
  The insert loop over the indices of the range. \<open>requests_post\<close> gives the outcome of the
  POST for the batch with a given number (\<open>i // batch_size\<close>). A status other than 200 and
  201 raises an Exception inside the \<open>try\<close>; the handler prints and re-raises, as it does
  for an exception of the POST itself.
\<close>

fun insert_loop ::
  "(nat \<Rightarrow> exn + response) \<Rightarrow> string \<Rightarrow> row list \<Rightarrow> nat list \<Rightarrow> store \<Rightarrow> (exn + unit) \<times> store" where
  "insert_loop requests_post insert_url records [] st = (Inr (), st)"
| "insert_loop requests_post insert_url records (i # rest) st =
     (let batch = slice records i (i + batch_size);
          out = requests_post (i div batch_size);
          st' = send (POST insert_url batch) out st
      in case out of
           Inl e \<Rightarrow> (Inl e, st')
         | Inr resp \<Rightarrow>
             if status_code resp = 200 \<or> status_code resp = 201
             then insert_loop requests_post insert_url records rest st'
             else (Inl (Exception (''Failed to insert batch: '' @ content resp)), st'))"

definition table_name :: "int \<Rightarrow> string" where
  "table_name season = ''player_stats_'' @ str_int season"

text \<open>\<open>df['last_updated'] = datetime.now().isoformat()\<close>: one string for every row.\<close>

definition stamp :: "string \<Rightarrow> dataframe \<Rightarrow> dataframe" where
  "stamp now df = setitem df ''last_updated'' (Object, replicate (nrows df) (Str now))"

definition delete_url :: "string \<Rightarrow> int \<Rightarrow> string" where
  "delete_url rest_url season = rest_url @ ''/'' @ table_name season @ ''?id=gt.0''"

definition insert_url :: "string \<Rightarrow> int \<Rightarrow> string" where
  "insert_url rest_url season = rest_url @ ''/'' @ table_name season"

text \<open>
  \<open>save_to_supabase\<close>: stamp the rows, clear the table (whatever the outcome of the DELETE,
  the code only prints), then insert in batches.
\<close>

definition save_to_supabase ::
  "(string \<Rightarrow> exn + response) \<Rightarrow> (nat \<Rightarrow> exn + response) \<Rightarrow> string \<Rightarrow>
     dataframe \<Rightarrow> string \<Rightarrow> (string \<times> string) list \<Rightarrow> int \<Rightarrow> store \<Rightarrow> (exn + unit) \<times> store" where
  "save_to_supabase requests_delete requests_post now df rest_url headers season st =
     (let records = rows_of (stamp now df);
          st1 = send (DELETE (delete_url rest_url season))
                  (requests_delete (delete_url rest_url season)) st
      in insert_loop requests_post (insert_url rest_url season) records
           (py_range 0 (length records) batch_size) st1)"

text \<open>
  The test the insert loop applies to the outcome of a POST: the call returned, with status
  200 or 201.
\<close>

definition accepted :: "exn + response \<Rightarrow> bool" where
  "accepted out =
     (case out of Inl e \<Rightarrow> False | Inr r \<Rightarrow> status_code r = 200 \<or> status_code r = 201)"

section \<open>Reporter\<close>

text \<open>Every outcome of the query is only printed: the function always returns.\<close>

definition display_top_players ::
  "(string \<Rightarrow> exn + response) \<Rightarrow> string \<Rightarrow> (string \<times> string) list \<Rightarrow> int \<Rightarrow> int \<Rightarrow> store \<Rightarrow> store" where
  "display_top_players requests_get rest_url headers season limit st =
     (let query_url = rest_url @ ''/'' @ table_name season
            @ ''?select=player_display_name,position_group,recent_team,fantasy_points''
            @ ''&order=fantasy_points.desc&limit='' @ str_int limit
      in send (GET query_url) (requests_get query_url) st)"

section \<open>The entry point\<close>

record env =
  requests_get :: "string \<Rightarrow> exn + response"
  requests_delete :: "string \<Rightarrow> exn + response"
  requests_post :: "nat \<Rightarrow> exn + response"
  read_csv :: "string \<Rightarrow> exn + dataframe"
  now :: string

text \<open>The body of the \<open>try\<close> block of \<open>main\<close>: the six steps in sequence.\<close>

definition steps :: "env \<Rightarrow> files \<Rightarrow> store \<Rightarrow> (exn + unit) \<times> files \<times> store" where
  "steps ev fs st =
     (case download_nflverse_data (requests_get ev) (read_csv ev) 2024 ''POST'' fs of
        (Inl e, fs1) \<Rightarrow> (Inl e, fs1, st)
      | (Inr df, fs1) \<Rightarrow>
          (case filter_and_prepare_data df of
             Inl e \<Rightarrow> (Inl e, fs1, st)
           | Inr df2 \<Rightarrow>
               (case add_fantasy_points df2 of
                  Inl e \<Rightarrow> (Inl e, fs1, st)
                | Inr df3 \<Rightarrow>
                    (case connect_to_supabase of
                       (rest_url, headers) \<Rightarrow>
                         (case save_to_supabase (requests_delete ev) (requests_post ev) (now ev)
                                 df3 rest_url headers 2024 st of
                            (Inl e, st1) \<Rightarrow> (Inl e, fs1, st1)
                          | (Inr u, st1) \<Rightarrow>
                              (Inr (), fs1,
                               display_top_players (requests_get ev) rest_url headers
                                 2024 20 st1))))))"

text \<open>
  Python's \<open>raise\<close> statement applied to an object: an exception is raised as it is;
  anything else, a string for one, makes the statement itself raise a TypeError.
\<close>

datatype pyobj = ExcObj exn | StrObj string

fun raise_stmt :: "pyobj \<Rightarrow> exn" where
  "raise_stmt (ExcObj e) = e"
| "raise_stmt (StrObj s) = TypeError ''exceptions must derive from BaseException''"

text \<open>
  \<open>main\<close>: the first handler \<open>except Exception as e\<close> prints and then executes
  \<open>raise("\n" + "=" * 80)\<close>. The statements after it and the second
  \<open>except Exception\<close> clause can never run.
\<close>

definition main :: "env \<Rightarrow> files \<Rightarrow> store \<Rightarrow> (exn + unit) \<times> files \<times> store" where
  "main ev fs st =
     (case steps ev fs st of
        (Inl e, fs', st') \<Rightarrow>
          (Inl (raise_stmt (StrObj (CHR 0x0A # replicate 80 (CHR ''='')))), fs', st')
      | (Inr u, fs', st') \<Rightarrow> (Inr (), fs', st'))"

section \<open>Example inputs\<close>

text \<open>A record with every statistic of both formulas at zero, and records built on it.\<close>

definition zero_stats :: row where
  "zero_stats f =
     (if f \<in> set (map field_of (off_body @ def_body)) then Some (Num 0) else None)"

definition example_qb :: row where
  "example_qb = zero_stats(''position_group'' \<mapsto> Str ''QB'', ''passing_yards'' \<mapsto> Num 250,
      ''passing_tds'' \<mapsto> Num 2, ''passing_interceptions'' \<mapsto> Num 1)"

definition example_lb :: row where
  "example_lb = zero_stats(''position_group'' \<mapsto> Str ''LB'', ''def_sacks'' \<mapsto> Num 2,
      ''def_interceptions'' \<mapsto> Num 1)"

definition example_st :: row where
  "example_st = zero_stats(''position_group'' \<mapsto> Str ''ST'', ''passing_yards'' \<mapsto> Num 250)"

text \<open>
  A raw table of four players with a column outside the fixed list, a label outside the
  eight codes, a missing label and a missing statistic; and the table the Normalizer
  makes of it.
\<close>

definition example_raw :: dataframe where
  "example_raw =
     \<lparr>nrows = 4,
      cols = [(''player_name'', Object, [Str ''A'', Str ''B'', Str ''C'', Str ''D'']),
              (''week'', Int64, [Num 1, Num 1, Num 1, Num 1]),
              (''position_group'', Object, [Str ''QB'', Str ''K'', NaN, Str ''LB'']),
              (''passing_yards'', Float64, [Num 250, Num 1, Num 2, NaN])]\<rparr>"

definition example_normalized :: dataframe where
  "example_normalized =
     \<lparr>nrows = 2,
      cols = [(''player_name'', Object, [Str ''A'', Str ''D'']),
              (''position_group'', Object, [Str ''QB'', Str ''LB'']),
              (''passing_yards'', Float64, [Num 250, Num 0])]\<rparr>"

text \<open>A raw table that has no category column.\<close>

definition example_no_group :: dataframe where
  "example_no_group =
     \<lparr>nrows = 1,
      cols = [(''player_name'', Object, [Str ''A'']),
              (''passing_yards'', Float64, [Num 250])]\<rparr>"

text \<open>A table of one special-teams player, and a table of 501 of them.\<close>

definition example_special :: dataframe where
  "example_special = \<lparr>nrows = 1, cols = [(''position_group'', Object, [Str ''ST''])]\<rparr>"

definition example_big :: dataframe where
  "example_big =
     \<lparr>nrows = 501, cols = [(''position_group'', Object, replicate 501 (Str ''ST''))]\<rparr>"

text \<open>The one-player table with its score column.\<close>

definition example_scored :: dataframe where
  "example_scored =
     \<lparr>nrows = 1,
      cols = [(''position_group'', Object, [Str ''ST'']),
              (''fantasy_points'', Float64, [Num 0])]\<rparr>"

text \<open>
  Outcomes of the fetch and a stand-in for the CSV parser that tells the remote content
  from the cached one.
\<close>

definition example_get_ok :: "string \<Rightarrow> exn + response" where
  "example_get_ok u = Inr (Response 200 ''remote'')"

definition example_get_404 :: "string \<Rightarrow> exn + response" where
  "example_get_404 u = Inr (Response 404 ''not found'')"

definition example_get_timeout :: "string \<Rightarrow> exn + response" where
  "example_get_timeout u = Inl (RequestException ''timed out'')"

definition example_parse :: "string \<Rightarrow> exn + dataframe" where
  "example_parse c =
     (if c = ''remote'' then Inr example_raw
      else if c = ''cached'' then Inr example_no_group
      else if c = ''special'' then Inr example_special
      else Inl (ParserError c))"

definition example_get_special :: "string \<Rightarrow> exn + response" where
  "example_get_special u = Inr (Response 200 ''special'')"

text \<open>
  A store that is empty at first, answers the DELETE with 204, accepts the first batch with
  201 and rejects every later one with 500; and one that rejects every batch.
\<close>

definition example_store :: store where
  "example_store = \<lparr>table = [], sent = []\<rparr>"

definition example_delete :: "string \<Rightarrow> exn + response" where
  "example_delete u = Inr (Response 204 [])"

definition example_post :: "nat \<Rightarrow> exn + response" where
  "example_post j = (if j = 0 then Inr (Response 201 []) else Inr (Response 500 ''no''))"

definition example_post_none :: "nat \<Rightarrow> exn + response" where
  "example_post_none j = Inr (Response 500 ''no'')"

definition example_env :: "(string \<Rightarrow> exn + response) \<Rightarrow> env" where
  "example_env get =
     \<lparr>requests_get = get, requests_delete = example_delete,
      requests_post = example_post_none, read_csv = example_parse,
      now = ''2025-01-20T12:00:00''\<rparr>"

section \<open>The scorer's formulas\<close>

lemma has_numbers_Cons:
  "has_numbers row (s # ss) = (has_number row (field_of s) \<and> has_numbers row ss)"
  by (simp add: has_numbers_def)

lemma has_numbers_Nil: "has_numbers row [] = True"
  by (simp add: has_numbers_def)

lemma exec_stmt_number:
  "has_number row (field_of s) \<Longrightarrow>
     exec_stmt row s (Num t) = Inr (Num (update_total s t (stat row (field_of s))))"
  by (auto simp: has_number_def stat_def split: option.splits cell.splits)

lemma exec_stmts_number_Cons:
  "has_number row (field_of s) \<Longrightarrow>
     exec_stmts row (s # ss) (Num t) =
       exec_stmts row ss (Num (update_total s t (stat row (field_of s))))"
  by (simp only: exec_stmts.simps exec_stmt_number sum.case)

lemma stat_zero_stats: "stat zero_stats f = 0"
  by (simp add: stat_def zero_stats_def)

text \<open>
  C1. A record whose category label is one of QB, RB, WR, TE and which carries a number
  under each of the eighteen statistics the formula reads is scored, without error, as
  passing_yards/25 + passing_tds*4 - passing_interceptions*2 - sacks_suffered*0.5
  - sack_fumbles_lost*2 + passing_2pt_conversions*2 + rushing_yards/10 + rushing_tds*6
  - rushing_fumbles_lost*2 + rushing_2pt_conversions*2 + receptions*0.5
  + receiving_yards/10 + receiving_tds*6 - receiving_fumbles_lost*2
  + receiving_2pt_conversions*2 + special_teams_tds*15 + punt_return_yards/20
  + kickoff_return_yards/20, the terms accumulated from left to right in this order.
  Numbers are rationals here, so the sum is exact.
\<close>

theorem offensive_score_formula:
  assumes g: "row ''position_group'' = Some (Str g)" "g \<in> set offensive_groups"
    and n: "has_numbers row off_body"
  shows "calculate_fantasy_points row =
    Inr (Num (stat row ''passing_yards'' / 25
      + stat row ''passing_tds'' * 4
      - stat row ''passing_interceptions'' * 2
      - stat row ''sacks_suffered'' * (1 / 2)
      - stat row ''sack_fumbles_lost'' * 2
      + stat row ''passing_2pt_conversions'' * 2
      + stat row ''rushing_yards'' / 10
      + stat row ''rushing_tds'' * 6
      - stat row ''rushing_fumbles_lost'' * 2
      + stat row ''rushing_2pt_conversions'' * 2
      + stat row ''receptions'' * (1 / 2)
      + stat row ''receiving_yards'' / 10
      + stat row ''receiving_tds'' * 6
      - stat row ''receiving_fumbles_lost'' * 2
      + stat row ''receiving_2pt_conversions'' * 2
      + stat row ''special_teams_tds'' * 15
      + stat row ''punt_return_yards'' / 20
      + stat row ''kickoff_return_yards'' / 20))"
proof -
  have "calculate_fantasy_points row = calculate_off_points row"
    using g by (simp add: calculate_fantasy_points_def)
  also have "\<dots> = exec_stmts row off_body (Num 0)"
    by (simp add: calculate_off_points_def)
  finally show ?thesis
    using n unfolding off_body_def
    by (simp only: has_numbers_Cons has_numbers_Nil exec_stmts_number_Cons exec_stmts.simps(1)
        update_total.simps field_of.simps add_0)
qed

text \<open>
  The record with passing_yards = 250, passing_tds = 2, passing_interceptions = 1 and
  every other statistic zero, labelled QB, scores 16.
\<close>

theorem offensive_score_formula_witness:
  "example_qb ''position_group'' = Some (Str ''QB'') \<and> ''QB'' \<in> set offensive_groups
   \<and> has_numbers example_qb off_body
   \<and> calculate_fantasy_points example_qb = Inr (Num 16)"
proof -
  have a: "example_qb ''position_group'' = Some (Str ''QB'')"
    by (simp add: example_qb_def)
  have b: "''QB'' \<in> set offensive_groups"
    by (simp add: offensive_groups_def)
  have c: "has_numbers example_qb off_body"
    by (simp add: has_numbers_def has_number_def example_qb_def zero_stats_def off_body_def)
  have st: "stat example_qb f =
      (if f = ''passing_interceptions'' then 1 else if f = ''passing_tds'' then 2
       else if f = ''passing_yards'' then 250 else if f = ''position_group'' then 0
       else stat zero_stats f)" for f
    by (simp add: stat_def example_qb_def)
  have "calculate_fantasy_points example_qb = Inr (Num 16)"
    unfolding offensive_score_formula [of example_qb "''QB''", OF a b c]
    by (simp add: st stat_zero_stats)
  with a b c show ?thesis by simp
qed

text \<open>
  C2. A record whose category label is one of DL, LB, DB and which carries a number under
  each of the eleven statistics the formula reads is scored, without error, as
  def_tackles_solo*1 + def_tackle_assists*0.5 + def_tackles_for_loss*2
  + def_fumbles_forced*5 + def_sacks*4 + def_interceptions*7 + def_pass_defended*3
  + def_tds*6 + def_safeties*2 + fumble_recovery_opp*3 + fumble_recovery_tds*6, the terms
  accumulated from left to right in this order.
\<close>

theorem defensive_score_formula:
  assumes g: "row ''position_group'' = Some (Str g)" "g \<in> set defensive_groups"
    and n: "has_numbers row def_body"
  shows "calculate_fantasy_points row =
    Inr (Num (stat row ''def_tackles_solo'' * 1
      + stat row ''def_tackle_assists'' * (1 / 2)
      + stat row ''def_tackles_for_loss'' * 2
      + stat row ''def_fumbles_forced'' * 5
      + stat row ''def_sacks'' * 4
      + stat row ''def_interceptions'' * 7
      + stat row ''def_pass_defended'' * 3
      + stat row ''def_tds'' * 6
      + stat row ''def_safeties'' * 2
      + stat row ''fumble_recovery_opp'' * 3
      + stat row ''fumble_recovery_tds'' * 6))"
proof -
  have "g \<notin> set offensive_groups"
    using g(2) by (auto simp: offensive_groups_def defensive_groups_def)
  then have "calculate_fantasy_points row = calculate_def_points row"
    using g by (simp add: calculate_fantasy_points_def)
  also have "\<dots> = exec_stmts row def_body (Num 0)"
    by (simp add: calculate_def_points_def)
  finally show ?thesis
    using n unfolding def_body_def
    by (simp only: has_numbers_Cons has_numbers_Nil exec_stmts_number_Cons exec_stmts.simps(1)
        update_total.simps field_of.simps add_0)
qed

text \<open>
  The record with def_sacks = 2, def_interceptions = 1 and every other statistic zero,
  labelled LB, scores 15.
\<close>

theorem defensive_score_formula_witness:
  "example_lb ''position_group'' = Some (Str ''LB'') \<and> ''LB'' \<in> set defensive_groups
   \<and> has_numbers example_lb def_body
   \<and> calculate_fantasy_points example_lb = Inr (Num 15)"
proof -
  have a: "example_lb ''position_group'' = Some (Str ''LB'')"
    by (simp add: example_lb_def)
  have b: "''LB'' \<in> set defensive_groups"
    by (simp add: defensive_groups_def)
  have c: "has_numbers example_lb def_body"
    by (simp add: has_numbers_def has_number_def example_lb_def zero_stats_def
        off_body_def def_body_def)
  have st: "stat example_lb f =
      (if f = ''def_interceptions'' then 1 else if f = ''def_sacks'' then 2
       else if f = ''position_group'' then 0 else stat zero_stats f)" for f
    by (simp add: stat_def example_lb_def)
  have "calculate_fantasy_points example_lb = Inr (Num 15)"
    unfolding defensive_score_formula [of example_lb "''LB''", OF a b c]
    by (simp add: st stat_zero_stats)
  with a b c show ?thesis by simp
qed

text \<open>
  C9. A record whose category label is none of QB, RB, WR, TE, DL, LB, DB (the label ST,
  any other string, or a cell that is not a string) is scored 0, whatever its statistics.
\<close>

theorem other_category_scores_zero:
  assumes "row ''position_group'' = Some c"
    and "c \<notin> Str ` (set offensive_groups \<union> set defensive_groups)"
  shows "calculate_fantasy_points row = Inr (Num 0)"
proof -
  have "\<not> py_in c offensive_groups" "\<not> py_in c defensive_groups"
    using assms(2) by (cases c; auto)+
  then show ?thesis
    using assms(1) by (simp add: calculate_fantasy_points_def)
qed

text \<open>A special-teams record with 250 passing yards still scores 0.\<close>

theorem other_category_scores_zero_witness:
  "example_st ''position_group'' = Some (Str ''ST'')
   \<and> Str ''ST'' \<notin> Str ` (set offensive_groups \<union> set defensive_groups)
   \<and> calculate_fantasy_points example_st = Inr (Num 0)"
proof -
  have a: "example_st ''position_group'' = Some (Str ''ST'')"
    by (simp add: example_st_def)
  have b: "Str ''ST'' \<notin> Str ` (set offensive_groups \<union> set defensive_groups)"
    by (auto simp: offensive_groups_def defensive_groups_def)
  show ?thesis
    using a b other_category_scores_zero [of example_st "Str ''ST''"] by simp
qed

section \<open>The loader\<close>

lemma str_int_2024: "str_int 2024 = ''2024''"
  by code_simp

lemma lower_REG: "lower ''REG'' = ''reg''"
  by code_simp

lemma lower_POST: "lower ''POST'' = ''post''"
  by code_simp

lemma cache_name_POST: "file_name season = remote_file_name season ''POST''"
  by (simp add: file_name_def remote_file_name_def lower_POST)

lemma loader_touches_only_cache_file:
  "download_nflverse_data get parse season season_type fs
     = (r, fs') \<Longrightarrow> dom fs' \<subseteq> insert (file_name season) (dom fs)"
  by (auto simp: download_nflverse_data_def try_download_def raise_for_status_def
      pd_read_csv_def Let_def split: sum.splits prod.splits option.splits if_splits)

text \<open>
  C6. For the season 2024 and the regular-season flag \<open>REG\<close> the file fetched is
  \<open>stats_player_reg_2024.csv\<close>, but the cache file written and read is
  \<open>stats_player_post_2024.csv\<close>: the cache name is built from the year alone, with the
  period fixed to \<open>post\<close>, and differs from the remote name.
\<close>

theorem cache_name_differs_for_REG:
  "file_name 2024 = ''stats_player_post_2024.csv''
   \<and> remote_file_name 2024 ''REG'' = ''stats_player_reg_2024.csv''
   \<and> file_name 2024 \<noteq> remote_file_name 2024 ''REG''"
  by (simp add: file_name_def remote_file_name_def str_int_2024 lower_REG)

text \<open>
  C8. If the fetch succeeds, the loader saves the remote content under the cache name and
  returns what the parser makes of that content. If the fetch fails and the cache file
  exists, it returns what the parser makes of the cache file and leaves the files alone.
  If the fetch fails and there is no cache file, it raises FileNotFoundError.
\<close>

theorem loader_remote_then_cache:
  "(\<forall>r. get (url season season_type) = Inr r \<and> fetch_ok (Inr r) \<longrightarrow>
      download_nflverse_data get parse season season_type fs =
        (parse (content r), fs(file_name season \<mapsto> content r)))
   \<and> (\<forall>c. \<not> fetch_ok (get (url season season_type)) \<and> fs (file_name season) = Some c \<longrightarrow>
        download_nflverse_data get parse season season_type fs = (parse c, fs))
   \<and> (\<not> fetch_ok (get (url season season_type)) \<and> fs (file_name season) = None \<longrightarrow>
        download_nflverse_data get parse season season_type fs =
          (Inl (FileNotFoundError (''Could not download data and local file '' @ file_name season
                           @ '' does not exist.'')), fs))"
  by (auto simp: fetch_ok_def download_nflverse_data_def try_download_def raise_for_status_def
      pd_read_csv_def Let_def dom_def split: sum.splits prod.splits option.splits if_splits)

text \<open>
  A fetch answered 200 returns the remote table and writes the cache; a fetch answered 404
  with a cache file returns the cached table; a fetch that times out without a cache file
  raises FileNotFoundError.
\<close>

theorem loader_remote_then_cache_witness:
  "(fetch_ok (example_get_ok (url 2024 ''POST''))
      \<and> download_nflverse_data example_get_ok example_parse 2024 ''POST'' Map.empty
          = (Inr example_raw, [file_name 2024 \<mapsto> ''remote'']))
   \<and> (\<not> fetch_ok (example_get_404 (url 2024 ''POST''))
      \<and> download_nflverse_data example_get_404 example_parse 2024 ''POST''
            [file_name 2024 \<mapsto> ''cached'']
          = (Inr example_no_group, [file_name 2024 \<mapsto> ''cached'']))
   \<and> (\<not> fetch_ok (example_get_timeout (url 2024 ''POST''))
      \<and> download_nflverse_data example_get_timeout example_parse 2024 ''POST'' Map.empty
          = (Inl (FileNotFoundError (''Could not download data and local file ''
                @ file_name 2024 @ '' does not exist.'')), Map.empty))"
proof -
  have a: "fetch_ok (example_get_ok (url 2024 ''POST''))"
    by (simp add: fetch_ok_def example_get_ok_def)
  have b: "\<not> fetch_ok (example_get_404 (url 2024 ''POST''))"
    by (simp add: fetch_ok_def example_get_404_def)
  have c: "\<not> fetch_ok (example_get_timeout (url 2024 ''POST''))"
    by (simp add: fetch_ok_def example_get_timeout_def)
  have p: "example_parse ''remote'' = Inr example_raw"
    "example_parse ''cached'' = Inr example_no_group"
    by (simp_all add: example_parse_def)
  have 1: "download_nflverse_data example_get_ok example_parse 2024 ''POST'' Map.empty
          = (Inr example_raw, [file_name 2024 \<mapsto> ''remote''])"
    using a p
      loader_remote_then_cache [where get = example_get_ok and parse = example_parse
        and season = 2024 and season_type = "''POST''" and fs = Map.empty]
    by (simp add: example_get_ok_def)
  have 2: "download_nflverse_data example_get_404 example_parse 2024 ''POST''
            [file_name 2024 \<mapsto> ''cached'']
          = (Inr example_no_group, [file_name 2024 \<mapsto> ''cached''])"
    using b p
      loader_remote_then_cache [where get = example_get_404 and parse = example_parse
        and season = 2024 and season_type = "''POST''" and fs = "[file_name 2024 \<mapsto> ''cached'']"]
    by simp
  have 3: "download_nflverse_data example_get_timeout example_parse 2024 ''POST'' Map.empty
          = (Inl (FileNotFoundError (''Could not download data and local file ''
                @ file_name 2024 @ '' does not exist.'')), Map.empty)"
    using c
      loader_remote_then_cache [where get = example_get_timeout and parse = example_parse
        and season = 2024 and season_type = "''POST''" and fs = Map.empty]
    by simp
  from a b c 1 2 3 show ?thesis by simp
qed

section \<open>The normalizer\<close>

lemma map_of_names:
  "map_of (map (\<lambda>n. (n, f n)) names) x = (if x \<in> set names then Some (f x) else None)"
  by (induction names) auto

lemma available_cols_present:
  "filter (\<lambda>n. map_of (cols df) n = None) (available_cols df) = []"
  by (auto simp: available_cols_def columns_def filter_empty_conv map_of_eq_None_iff)

lemma project_eq:
  "project df = Inr (df\<lparr>cols := map (\<lambda>n. (n, the (map_of (cols df) n))) (available_cols df)\<rparr>)"
  by (simp add: project_def getitem_cols_def available_cols_present)

text \<open>
  C7. The projection step never raises: whatever columns the raw table has, it returns a
  table with the same rows whose columns are exactly the listed columns that the raw table
  has, in the order of the list, each with the content it has in the raw table. A listed
  column that is absent is left out.
\<close>

theorem projection_never_raises:
  "\<exists>out. project df = Inr out
      \<and> nrows out = nrows df
      \<and> columns out = filter (\<lambda>c. c \<in> set (columns df)) needed_cols
      \<and> (\<forall>c \<in> set (columns out). map_of (cols out) c = map_of (cols df) c)"
proof -
  let ?out = "df\<lparr>cols := map (\<lambda>n. (n, the (map_of (cols df) n))) (available_cols df)\<rparr>"
  have cs: "columns ?out = available_cols df"
    by (simp add: columns_def comp_def)
  have "map_of (cols ?out) c = map_of (cols df) c" if "c \<in> set (available_cols df)" for c
  proof -
    from that have "c \<in> fst ` set (cols df)"
      by (simp add: available_cols_def columns_def)
    then obtain v where "map_of (cols df) c = Some v"
      by (metis map_of_eq_None_iff not_Some_eq)
    with that show ?thesis by (simp add: map_of_names)
  qed
  with cs show ?thesis
    by (intro exI [of _ ?out]) (simp add: project_eq available_cols_def)
qed

text \<open>
  From the example table, which lacks 37 of the 40 listed columns, the projection keeps the
  three listed columns it has and drops the unlisted one.
\<close>

theorem projection_never_raises_witness:
  "\<exists>out. project example_raw = Inr out
      \<and> nrows out = 4
      \<and> columns out = [''player_name'', ''position_group'', ''passing_yards'']
      \<and> map (map_of (cols out)) (columns out) = map (map_of (cols example_raw)) (columns out)"
proof -
  have "filter (\<lambda>c. c \<in> set (columns example_raw)) needed_cols
      = [''player_name'', ''position_group'', ''passing_yards'']"
    by (simp add: columns_def example_raw_def needed_cols_def)
  moreover have "nrows example_raw = 4"
    by (simp add: example_raw_def)
  ultimately show ?thesis
    using projection_never_raises [of example_raw] by auto
qed

lemma normalizer_eq:
  "filter_and_prepare_data df =
     (case map_of (cols df) ''position_group'' of
        None \<Rightarrow> Inl (KeyError ''position_group'')
      | Some pg \<Rightarrow>
          Inr \<lparr>nrows = length (filter (\<lambda>b. b) (isin pg position_groups)),
               cols = map (\<lambda>n. (n, filled (masked (isin pg position_groups)
                                     (the (map_of (cols df) n)))))
                        (available_cols df)\<rparr>)"
proof (cases "map_of (cols df) ''position_group''")
  case None
  then have "''position_group'' \<notin> set (available_cols df)"
    by (simp add: available_cols_def columns_def map_of_eq_None_iff)
  with None show ?thesis
    by (simp add: filter_and_prepare_data_def project_eq getitem_col_def map_of_names)
next
  case (Some pg)
  then have "''position_group'' \<in> fst ` set (cols df)"
    by (metis map_of_eq_None_iff option.distinct(1))
  then have "''position_group'' \<in> set (available_cols df)"
    by (simp add: available_cols_def columns_def needed_cols_def)
  with Some show ?thesis
    by (simp add: filter_and_prepare_data_def project_eq getitem_col_def map_of_names
        fill_numeric_def getitem_mask_def comp_def masked_def filled_def split_def)
qed

lemma row_at_names:
  "map_of (List.map_filter (\<lambda>(n, t, cs). if i < length cs then Some (n, cs ! i) else None)
             (map (\<lambda>n. (n, h n)) names)) x
   = (if x \<in> set names \<and> i < length (snd (h x)) then Some (snd (h x) ! i) else None)"
  by (induction names) (auto simp: List.map_filter_simps split_def)

lemma select_rows_map: "select_rows (map P xs) xs = filter P xs"
  unfolding select_rows_def by (induction xs) auto

lemma length_filter_map: "length (filter (\<lambda>b. b) (map P xs)) = length (filter P xs)"
  by (induction xs) auto

lemma fillna0_not_NaN: "fillna0 c \<noteq> NaN"
  by (cases c) (simp_all add: fillna0_def)

lemma no_NaN_after_fill: "NaN \<notin> set (map fillna0 cs)"
  using fillna0_not_NaN by (auto simp: image_iff) metis

lemma fillna0_Str: "fillna0 (Str g) = Str g"
  by (simp add: fillna0_def)

lemma py_in_Str: "py_in c vs \<Longrightarrow> \<exists>g \<in> set vs. c = Str g"
  by (cases c) auto


lemma normalizer_raises_without_group:
  "''position_group'' \<notin> set (columns df) \<Longrightarrow>
     filter_and_prepare_data df = Inl (KeyError ''position_group'')"
  by (simp add: normalizer_eq columns_def map_of_eq_None_iff [symmetric])

lemma normalize_example_raw: "filter_and_prepare_data example_raw = Inr example_normalized"
  by (simp add: filter_and_prepare_data_def project_def available_cols_def columns_def
      example_raw_def example_normalized_def needed_cols_def getitem_cols_def getitem_col_def
      getitem_mask_def fill_numeric_def isin_def select_rows_def position_groups_def
      is_numeric_def fillna0_def)

lemma normalize_example_no_group:
  "filter_and_prepare_data example_no_group = Inl (KeyError ''position_group'')"
  by (simp add: normalizer_raises_without_group columns_def example_no_group_def)

text \<open>
  C5. Whenever the Normalizer returns a table, every row of it has a category label that is
  one of the eight codes QB, RB, WR, TE, DL, LB, DB, ST, and no column of a numeric dtype
  (float64 or int64) holds a missing value.
\<close>

theorem normalizer_output_invariant:
  assumes ok: "filter_and_prepare_data df = Inr out"
  shows "(\<forall>r \<in> set (rows_of out). \<exists>g \<in> set position_groups. r ''position_group'' = Some (Str g))
       \<and> (\<forall>(n, t, cs) \<in> set (cols out). is_numeric t \<longrightarrow> NaN \<notin> set cs)"
proof -
  from ok obtain pg where pg: "map_of (cols df) ''position_group'' = Some pg"
    by (auto simp: normalizer_eq split: option.splits)
  let ?keep = "isin pg position_groups"
  let ?h = "\<lambda>n. filled (masked ?keep (the (map_of (cols df) n)))"
  from ok pg have out: "out = \<lparr>nrows = length (filter (\<lambda>b. b) ?keep),
                              cols = map (\<lambda>n. (n, ?h n)) (available_cols df)\<rparr>"
    by (simp add: normalizer_eq)
  have mem: "''position_group'' \<in> set (available_cols df)"
  proof -
    from pg have "''position_group'' \<in> fst ` set (cols df)"
      by (metis map_of_eq_None_iff option.distinct(1))
    then show ?thesis
      by (simp add: available_cols_def columns_def needed_cols_def)
  qed
  let ?P = "\<lambda>x. py_in x position_groups"
  have sel: "select_rows ?keep (snd pg) = filter ?P (snd pg)"
    by (simp add: isin_def select_rows_map)
  have len: "nrows out = length (filter ?P (snd pg))"
    by (simp add: out isin_def comp_def)
  have cells: "snd (?h ''position_group'') ! i = filter ?P (snd pg) ! i
        \<and> length (snd (?h ''position_group'')) = length (filter ?P (snd pg))"
    if "i < length (filter ?P (snd pg))" for i
  proof -
    from that have "filter ?P (snd pg) ! i \<in> set (filter ?P (snd pg))"
      by (rule nth_mem)
    then obtain g where "filter ?P (snd pg) ! i = Str g"
      using py_in_Str by fastforce
    with that show ?thesis
      by (simp add: pg filled_def masked_def sel fillna0_Str)
  qed
  have rows: "\<exists>g \<in> set position_groups. r ''position_group'' = Some (Str g)"
    if "r \<in> set (rows_of out)" for r
  proof -
    from that obtain i where i: "i < nrows out" and r: "r = row_at out i"
      by (auto simp: rows_of_def)
    from i len have i': "i < length (filter ?P (snd pg))" by simp
    then have "filter ?P (snd pg) ! i \<in> set (filter ?P (snd pg))"
      by (rule nth_mem)
    then obtain g where g: "g \<in> set position_groups" "filter ?P (snd pg) ! i = Str g"
      using py_in_Str by fastforce
    have "r ''position_group'' = Some (snd (?h ''position_group'') ! i)"
      unfolding r row_at_def out using mem cells [OF i'] i'
      by (simp add: row_at_names)
    with cells [OF i'] g show ?thesis by auto
  qed
  have nan: "is_numeric t \<longrightarrow> NaN \<notin> set cs" if "(n, t, cs) \<in> set (cols out)" for n t cs
  proof -
    from that obtain m where "(t, cs) = ?h m"
      by (auto simp: out)
    then show ?thesis
      by (auto simp: filled_def masked_def no_NaN_after_fill simp del: set_map split: if_splits)
  qed
  from rows nan show ?thesis by blast
qed


text \<open>
  The example table is normalized to the two rows labelled QB and LB, and the missing
  passing yards of the second have become 0.
\<close>

theorem normalizer_output_invariant_witness:
  "filter_and_prepare_data example_raw = Inr example_normalized
   \<and> list_all (\<lambda>r. r ''position_group'' \<in> set (map (\<lambda>g. Some (Str g)) position_groups))
        (rows_of example_normalized)
   \<and> list_all (\<lambda>(n, t, cs). NaN \<notin> set cs)
        (filter (\<lambda>(n, t, cs). is_numeric t) (cols example_normalized))
   \<and> map_of (cols example_normalized) ''passing_yards'' = Some (Float64, [Num 250, Num 0])"
proof -
  note t = normalizer_output_invariant [OF normalize_example_raw]
  from t have "list_all (\<lambda>r. r ''position_group'' \<in> set (map (\<lambda>g. Some (Str g)) position_groups))
        (rows_of example_normalized)"
    unfolding list_all_iff by auto
  moreover from t have "list_all (\<lambda>(n, t, cs). NaN \<notin> set cs)
        (filter (\<lambda>(n, t, cs). is_numeric t) (cols example_normalized))"
    unfolding list_all_iff by auto
  moreover have "map_of (cols example_normalized) ''passing_yards''
      = Some (Float64, [Num 250, Num 0])"
    by (simp add: example_normalized_def)
  ultimately show ?thesis
    using normalize_example_raw by simp
qed

section \<open>The persister\<close>

lemma length_py_range:
  "0 < step \<Longrightarrow> length (py_range i stop step) = (stop - i + (step - 1)) div step"
proof (induction i stop step rule: py_range.induct)
  case (1 i stop step)
  show ?case
  proof (cases "i < stop")
    case True
    with 1 have IH: "length (py_range (i + step) stop step) = (stop - (i + step) + (step - 1)) div step"
      by simp
    have "(stop - i + (step - 1)) div step = Suc ((stop - (i + step) + (step - 1)) div step)"
    proof (cases "i + step \<le> stop")
      case True
      then have "stop - i + (step - 1) = (stop - (i + step) + (step - 1)) + step" by simp
      moreover have "((stop - (i + step) + (step - 1)) + step) div step
          = (stop - (i + step) + (step - 1)) div step + 1"
        using 1(2) by (intro div_add_self2) simp
      ultimately show ?thesis by (simp only: Suc_eq_plus1)
    next
      case False
      with \<open>i < stop\<close> 1(2) have a: "stop - (i + step) = 0" and b: "step \<le> stop - i + (step - 1)"
        and c: "stop - i + (step - 1) < 2 * step" by simp_all
      from b c have "(stop - i + (step - 1)) div step = 1"
        by (metis 1(2) One_nat_def div_nat_eqI mult.commute mult_2_right nat_mult_1_right numeral_2_eq_2 mult_Suc_right)
      with a 1(2) show ?thesis by simp
    qed
    with True 1(2) IH show ?thesis
      by (subst py_range.simps) simp
  next
    case False
    with 1(2) show ?thesis
      by (subst py_range.simps) (simp add: div_eq_0_iff)
  qed
qed

lemma nth_py_range:
  "0 < step \<Longrightarrow> j < length (py_range i stop step) \<Longrightarrow> py_range i stop step ! j = i + j * step"
proof (induction i stop step arbitrary: j rule: py_range.induct)
  case (1 i stop step)
  show ?case
  proof (cases "i < stop")
    case True
    with 1(2) have eq: "py_range i stop step = i # py_range (i + step) stop step"
      by (subst py_range.simps) simp
    show ?thesis
    proof (cases j)
      case 0
      then show ?thesis by (simp add: eq)
    next
      case (Suc m)
      with 1(3) eq have "m < length (py_range (i + step) stop step)" by simp
      with 1(1) [of m] True 1(2) have "py_range (i + step) stop step ! m = i + step + m * step"
        by simp
      with Suc show ?thesis by (simp add: eq)
    qed
  next
    case False
    with 1(3) show ?thesis
      by (subst (asm) py_range.simps) simp
  qed
qed

lemma py_range_eq:
  assumes "0 < step"
  shows "py_range i stop step = map (\<lambda>j. i + j * step) [0..<(stop - i + (step - 1)) div step]"
  by (rule nth_equalityI) (simp_all add: assms length_py_range nth_py_range)

lemma concat_slices:
  "0 < step \<Longrightarrow>
     concat (map (\<lambda>i. slice rs i (i + step)) (py_range i (length rs) step)) = drop i rs"
proof (induction i "length rs" step rule: py_range.induct)
  case (1 i step)
  show ?case
  proof (cases "i < length rs")
    case True
    with 1 have "concat (map (\<lambda>i. slice rs i (i + step)) (py_range (i + step) (length rs) step))
        = drop (i + step) rs" by simp
    moreover have "py_range i (length rs) step = i # py_range (i + step) (length rs) step"
      using True 1(2) by (subst py_range.simps) simp
    moreover have "take step (drop i rs) @ drop (i + step) rs = drop i rs"
      by (metis add.commute append_take_drop_id drop_drop)
    ultimately show ?thesis by (simp add: slice_def)
  next
    case False
    then show ?thesis by (subst py_range.simps) simp
  qed
qed

lemma length_batches: "length (batches rs) = (length rs + 499) div 500"
  by (simp add: batches_def batch_size_def length_py_range)

lemma nth_batches:
  "j < length (batches rs) \<Longrightarrow> batches rs ! j = take 500 (drop (j * 500) rs)"
  by (simp add: batches_def batch_size_def nth_py_range slice_def)

lemma concat_batches: "concat (batches rs) = rs"
  using concat_slices [of batch_size rs 0] by (simp add: batches_def batch_size_def)


lemma ceil_div_500: "int ((N + 499) div 500) = \<lceil>real N / 500\<rceil>"
proof -
  have "\<lceil>real N / 500\<rceil> = \<lceil>real_of_int (int N) / real_of_int 500\<rceil>" by simp
  also have "\<dots> = - (- int N div 500)"
    by (rule ceiling_divide_eq_div)
  also have "\<dots> = int ((N + 499) div 500)"
    by linarith
  finally show ?thesis by simp
qed

lemma round_up_500:
  "(N + 499) div 500 = N div 500 + (if N mod 500 = 0 then 0 else (1::nat))"
proof (cases "N mod 500 = 0")
  case True
  then have "N + 499 = 499 + (N div 500) * 500"
    using div_mult_mod_eq [of N 500] by simp
  then have "(N + 499) div 500 = (499 + (N div 500) * 500) div 500" by simp
  also have "\<dots> = N div 500" by simp
  finally show ?thesis using True by simp
next
  case False
  define q r where "q = N div 500" and "r = N mod 500"
  have "q * 500 + r = N" "r \<noteq> 0"
    using False by (simp_all add: q_def r_def)
  then have "N + 499 = (r - 1) + (q + 1) * 500"
    by simp
  then have "N + 499 = (N mod 500 - 1) + (N div 500 + 1) * 500"
    by (simp only: q_def r_def)
  then have "(N + 499) div 500 = ((N mod 500 - 1) + (N div 500 + 1) * 500) div 500" by simp
  also have "\<dots> = (N div 500 + 1) + (N mod 500 - 1) div 500"
    by (rule div_mult_self1) simp
  also have "(N mod 500 - 1) div 500 = 0"
    by (simp add: div_eq_0_iff less_imp_diff_less)
  finally show ?thesis using False by simp
qed

lemma last_batch_size:
  assumes "j < (N + 499) div 500"
  shows "min 500 (N - j * 500) =
    (if Suc j = (N + 499) div 500 \<and> N mod 500 \<noteq> 0 then N mod 500 else (500::nat))"
proof -
  have N: "N = (N div 500) * 500 + N mod 500" by simp
  have r: "N mod 500 < 500" by simp
  show ?thesis
  proof (cases "N mod 500 = 0")
    case True
    with assms have "j < N div 500" by (simp add: round_up_500)
    then have "Suc j \<le> N div 500" by simp
    then have "Suc j * 500 \<le> (N div 500) * 500" by (rule mult_le_mono1)
    with N have "500 \<le> N - j * 500" by simp
    with True show ?thesis by simp
  next
    case False
    with assms have j: "j \<le> N div 500" by (simp add: round_up_500)
    show ?thesis
    proof (cases "j = N div 500")
      case True
      then have "N - j * 500 = N mod 500"
        by (simp add: minus_div_mult_eq_mod)
      with True False r show ?thesis by (simp add: round_up_500)
    next
      case False
      with j have "Suc j \<le> N div 500" by simp
      then have "Suc j * 500 \<le> (N div 500) * 500" by (rule mult_le_mono1)
      with N have "500 \<le> N - j * 500" by simp
      with False \<open>N mod 500 \<noteq> 0\<close> show ?thesis by (simp add: round_up_500)
    qed
  qed
qed

text \<open>
  C4. The batches the insert loop forms from \<open>N\<close> records are, put end to end, the records
  in their order; there are exactly \<open>ceil(N/500)\<close> of them; and every batch has 500
  records, except that the last one has \<open>N mod 500\<close> records when \<open>N\<close> is not a multiple
  of 500.
\<close>

theorem batches_partition:
  "concat (batches rs) = rs
   \<and> int (length (batches rs)) = \<lceil>real (length rs) / 500\<rceil>
   \<and> (\<forall>j < length (batches rs).
        length (batches rs ! j) =
          (if Suc j = length (batches rs) \<and> length rs mod 500 \<noteq> 0 then length rs mod 500 else 500))"
proof -
  have "length (batches rs ! j) = min 500 (length rs - j * 500)" if "j < length (batches rs)" for j
    using that by (simp add: nth_batches min_def)
  then show ?thesis
    by (simp add: concat_batches length_batches ceil_div_500 last_batch_size del: of_nat_add)
qed


text \<open>1001 records make three batches, of 500, 500 and 1 records.\<close>

theorem batches_partition_witness:
  "concat (batches (replicate 1001 (0::nat))) = replicate 1001 0
   \<and> length (batches (replicate 1001 (0::nat))) = 3
   \<and> length (batches (replicate 1001 (0::nat)) ! 0) = 500
   \<and> length (batches (replicate 1001 (0::nat)) ! 1) = 500
   \<and> length (batches (replicate 1001 (0::nat)) ! 2) = 1"
proof -
  let ?rs = "replicate 1001 (0::nat)"
  note t = batches_partition [of ?rs]
  have "\<lceil>real (length ?rs) / 500\<rceil> = 3" by simp
  with t have l: "length (batches ?rs) = 3" by simp
  from t have "\<forall>j < length (batches ?rs). length (batches ?rs ! j) =
          (if Suc j = length (batches ?rs) \<and> length ?rs mod 500 \<noteq> 0 then length ?rs mod 500 else 500)"
    by blast
  then have "\<forall>j < 3. length (batches ?rs ! j) = (if j = 2 then 1 else 500)"
    by (simp add: l)
  then have "length (batches ?rs ! 0) = 500" "length (batches ?rs ! 1) = 500"
    "length (batches ?rs ! 2) = 1"
    by simp_all
  with t l show ?thesis by simp
qed


lemma accepted_acknowledged: "accepted out \<Longrightarrow> acknowledged out"
  by (auto simp: accepted_def acknowledged_def split: sum.splits)

lemma insert_loop_accepted:
  "\<forall>i \<in> set idx. accepted (post (i div batch_size)) \<Longrightarrow>
   insert_loop post u rs idx st =
     (Inr (), \<lparr>table = table st @ concat (map (\<lambda>i. slice rs i (i + batch_size)) idx),
               sent = sent st @ map (\<lambda>i. POST u (slice rs i (i + batch_size))) idx\<rparr>)"
proof (induction idx arbitrary: st)
  case Nil
  then show ?case by simp
next
  case (Cons i idx)
  from Cons.prems have a: "accepted (post (i div batch_size))" by simp
  then obtain r where r: "post (i div batch_size) = Inr r" "status_code r = 200 \<or> status_code r = 201"
    by (auto simp: accepted_def split: sum.splits)
  from Cons.prems have "\<forall>i \<in> set idx. accepted (post (i div batch_size))" by simp
  note IH = Cons.IH [OF this]
  show ?case
    using r accepted_acknowledged [OF a]
    by (auto simp: Let_def IH send_def)
qed

lemma insert_loop_rejected:
  assumes "\<forall>i \<in> set pre. accepted (post (i div batch_size))"
    and "\<not> accepted (post (i div batch_size))"
  shows "\<exists>e. insert_loop post u rs (pre @ i # suf) st =
     (Inl e, \<lparr>table = table st @ concat (map (\<lambda>i. slice rs i (i + batch_size)) pre)
                  @ (if acknowledged (post (i div batch_size))
                     then slice rs i (i + batch_size) else []),
               sent = sent st @ map (\<lambda>i. POST u (slice rs i (i + batch_size))) (pre @ [i])\<rparr>)"
  using assms(1)
proof (induction pre arbitrary: st)
  case Nil
  show ?case
    using assms(2)
    by (cases "post (i div batch_size)") (auto simp: Let_def send_def accepted_def)
next
  case (Cons j pre)
  from Cons.prems have a: "accepted (post (j div batch_size))" by simp
  then obtain r where r: "post (j div batch_size) = Inr r" "status_code r = 200 \<or> status_code r = 201"
    by (auto simp: accepted_def split: sum.splits)
  from Cons.prems have "\<forall>i \<in> set pre. accepted (post (i div batch_size))" by simp
  note IH = Cons.IH [OF this]
  let ?st' = "send (POST u (slice rs j (j + batch_size))) (post (j div batch_size)) st"
  from IH [of ?st'] obtain e where
    "insert_loop post u rs (pre @ i # suf) ?st' =
     (Inl e, \<lparr>table = table ?st' @ concat (map (\<lambda>i. slice rs i (i + batch_size)) pre)
                  @ (if acknowledged (post (i div batch_size))
                     then slice rs i (i + batch_size) else []),
               sent = sent ?st' @ map (\<lambda>i. POST u (slice rs i (i + batch_size))) (pre @ [i])\<rparr>)"
    by blast
  then show ?case
    using r accepted_acknowledged [OF a]
    by (auto simp: Let_def send_def)
qed

lemma length_rows_of: "length (rows_of df) = nrows df"
  by (simp add: rows_of_def)

lemma nrows_stamp: "nrows (stamp ts df) = nrows df"
  by (simp add: stamp_def setitem_def)

lemma batch_size_pos: "0 < batch_size"
  by (simp add: batch_size_def)

lemma length_batches_range: "length (batches rs) = length (py_range 0 (length rs) batch_size)"
  by (simp add: batches_def)

text \<open>When every insert is accepted, the POSTs sent are the batches, each once, in order.\<close>

lemma save_posts_all_batches:
  assumes "\<forall>j < length (batches (rows_of (stamp ts df))). accepted (post j)"
  shows "\<exists>st'. save_to_supabase del post ts df rest_url headers season st = (Inr (), st')
    \<and> sent st' = sent st @ DELETE (delete_url rest_url season)
         # map (POST (insert_url rest_url season)) (batches (rows_of (stamp ts df)))"
proof -
  let ?rs = "rows_of (stamp ts df)"
  let ?idx = "py_range 0 (length ?rs) batch_size"
  have "\<forall>i \<in> set ?idx. accepted (post (i div batch_size))"
  proof
    fix i assume "i \<in> set ?idx"
    then obtain m where m: "m < length ?idx" "i = ?idx ! m"
      by (auto simp: in_set_conv_nth)
    then have "i div batch_size = m" by (simp add: nth_py_range batch_size_pos)
    with assms m(1) show "accepted (post (i div batch_size))"
      by (simp add: length_batches_range)
  qed
  from insert_loop_accepted [OF this] show ?thesis
    by (simp add: save_to_supabase_def Let_def send_def batches_def comp_def)
qed

text \<open>
  C3. If the inserts of batches \<open>0..k-1\<close> are accepted and the insert of batch \<open>k\<close> fails
  (the POST raises, or is answered with a status other than 200 and 201), then
  \<open>save_to_supabase\<close> raises; the requests it has sent are the DELETE and the POSTs of
  batches \<open>0..k\<close> and nothing else, so no later batch is attempted and nothing is undone;
  and the table holds batches \<open>0..k-1\<close> after what the DELETE left (and batch \<open>k\<close> too
  if the store answered it with another 2xx status).
\<close>

theorem failed_batch_aborts_run:
  assumes k: "k < length (batches (rows_of (stamp ts df)))"
    and before: "\<forall>j < k. accepted (post j)"
    and fails: "\<not> accepted (post k)"
  shows "\<exists>e st'.
      save_to_supabase del post ts df rest_url headers season st = (Inl e, st')
    \<and> sent st' = sent st @ DELETE (delete_url rest_url season)
         # map (POST (insert_url rest_url season)) (take (Suc k) (batches (rows_of (stamp ts df))))
    \<and> table st' =
         table (send (DELETE (delete_url rest_url season)) (del (delete_url rest_url season)) st)
         @ concat (take k (batches (rows_of (stamp ts df))))
         @ (if acknowledged (post k) then batches (rows_of (stamp ts df)) ! k else [])"
proof -
  let ?rs = "rows_of (stamp ts df)"
  let ?idx = "py_range 0 (length ?rs) batch_size"
  let ?B = "\<lambda>i. slice ?rs i (i + batch_size)"
  let ?st1 = "send (DELETE (delete_url rest_url season)) (del (delete_url rest_url season)) st"
  from k have kl: "k < length ?idx" by (simp add: length_batches_range)
  have nth: "?idx ! m = m * batch_size" if "m < length ?idx" for m
    using that by (simp add: nth_py_range batch_size_pos)
  have split: "?idx = take k ?idx @ ?idx ! k # drop (Suc k) ?idx"
    using kl by (rule id_take_nth_drop)
  have ik: "?idx ! k div batch_size = k"
    using kl by (simp add: nth batch_size_pos)
  have pre: "\<forall>i \<in> set (take k ?idx). accepted (post (i div batch_size))"
  proof
    fix i assume "i \<in> set (take k ?idx)"
    then obtain m where m: "m < k" "m < length ?idx" "i = ?idx ! m"
      by (auto simp: in_set_conv_nth)
    then have "i div batch_size = m" by (simp add: nth batch_size_pos)
    with before m(1) show "accepted (post (i div batch_size))" by simp
  qed
  from fails ik have rej: "\<not> accepted (post (?idx ! k div batch_size))" by simp
  from insert_loop_rejected [OF pre rej, of "insert_url rest_url season" ?rs "drop (Suc k) ?idx" ?st1]
  obtain e where e: "insert_loop post (insert_url rest_url season) ?rs ?idx ?st1 =
     (Inl e, \<lparr>table = table ?st1 @ concat (map ?B (take k ?idx))
                  @ (if acknowledged (post (?idx ! k div batch_size)) then ?B (?idx ! k) else []),
               sent = sent ?st1 @ map (\<lambda>i. POST (insert_url rest_url season) (?B i))
                        (take k ?idx @ [?idx ! k])\<rparr>)"
    using split by auto
  have b1: "map ?B (take k ?idx) = take k (batches ?rs)"
    by (simp add: batches_def take_map)
  have b2: "?B (?idx ! k) = batches ?rs ! k"
    using kl by (simp add: batches_def)
  have b3: "map (\<lambda>i. POST (insert_url rest_url season) (?B i)) (take k ?idx @ [?idx ! k])
      = map (POST (insert_url rest_url season)) (take (Suc k) (batches ?rs))"
    using kl by (simp add: batches_def take_map take_Suc_conv_app_nth)
  have s1: "sent ?st1 = sent st @ [DELETE (delete_url rest_url season)]"
    by (simp add: send_def)
  have "save_to_supabase del post ts df rest_url headers season st =
      insert_loop post (insert_url rest_url season) ?rs ?idx ?st1"
    by (simp add: save_to_supabase_def Let_def)
  with e have "save_to_supabase del post ts df rest_url headers season st =
     (Inl e, \<lparr>table = table ?st1 @ concat (take k (batches ?rs))
                  @ (if acknowledged (post k) then batches ?rs ! k else []),
               sent = sent ?st1 @ map (POST (insert_url rest_url season))
                        (take (Suc k) (batches ?rs))\<rparr>)"
    by (simp only: b1 b2 b3 ik)
  then show ?thesis
    by (simp add: s1)
qed

text \<open>
  With 501 records, the first batch accepted and the second rejected, the run raises after
  two POSTs and the table holds the first batch.
\<close>

theorem failed_batch_aborts_run_witness:
  "1 < length (batches (rows_of (stamp ''t'' example_big)))
   \<and> accepted (example_post 0)
   \<and> \<not> accepted (example_post 1)
   \<and> (\<exists>e st'.
        save_to_supabase example_delete example_post ''t'' example_big ''r'' [] 2024 example_store
          = (Inl e, st')
      \<and> sent st' = DELETE (delete_url ''r'' 2024)
           # map (POST (insert_url ''r'' 2024)) (take 2 (batches (rows_of (stamp ''t'' example_big))))
      \<and> table st' = concat (take 1 (batches (rows_of (stamp ''t'' example_big)))))"
proof -
  have a: "1 < length (batches (rows_of (stamp ''t'' example_big)))"
    by (simp add: length_batches length_rows_of nrows_stamp example_big_def)
  have b: "\<forall>j < 1. accepted (example_post j)"
    by (simp add: accepted_def example_post_def)
  have c: "\<not> accepted (example_post 1)"
    by (simp add: accepted_def example_post_def)
  have d: "\<not> acknowledged (example_post (Suc 0))" "acknowledged (example_delete u)" for u
    by (simp_all add: acknowledged_def example_post_def example_delete_def)
  from failed_batch_aborts_run [OF a b c, of example_delete "''r''" "[]" 2024 example_store]
  have "\<exists>e st'.
        save_to_supabase example_delete example_post ''t'' example_big ''r'' [] 2024 example_store
          = (Inl e, st')
      \<and> sent st' = DELETE (delete_url ''r'' 2024)
           # map (POST (insert_url ''r'' 2024)) (take 2 (batches (rows_of (stamp ''t'' example_big))))
      \<and> table st' = concat (take 1 (batches (rows_of (stamp ''t'' example_big))))"
    by (simp add: d send_def example_store_def numeral_2_eq_2)
  moreover have "accepted (example_post 0)"
    by (simp add: accepted_def example_post_def)
  ultimately show ?thesis using a c by blast
qed


section \<open>The entry point\<close>

text \<open>
  C10. Whenever a stage of the pipeline raises an exception \<open>e\<close> (the loader, the
  normalizer, the scorer or the persister; connecting and reporting cannot raise), \<open>main\<close>
  does not return normally, and what it raises is not \<open>e\<close> but the TypeError of its
  handler's \<open>raise\<close> applied to a string. So a run of \<open>main\<close> either returns or raises
  that TypeError.
\<close>

theorem main_replaces_stage_error:
  "(\<forall>e fs1. download_nflverse_data (requests_get ev) (read_csv ev) 2024 ''POST'' fs = (Inl e, fs1)
       \<longrightarrow> fst (main ev fs st) = Inl (TypeError ''exceptions must derive from BaseException''))
 \<and> (\<forall>df fs1 e. download_nflverse_data (requests_get ev) (read_csv ev) 2024 ''POST'' fs = (Inr df, fs1)
       \<and> filter_and_prepare_data df = Inl e
       \<longrightarrow> fst (main ev fs st) = Inl (TypeError ''exceptions must derive from BaseException''))
 \<and> (\<forall>df fs1 df2 e. download_nflverse_data (requests_get ev) (read_csv ev) 2024 ''POST'' fs = (Inr df, fs1)
       \<and> filter_and_prepare_data df = Inr df2 \<and> add_fantasy_points df2 = Inl e
       \<longrightarrow> fst (main ev fs st) = Inl (TypeError ''exceptions must derive from BaseException''))
 \<and> (\<forall>df fs1 df2 df3 e st1.
       download_nflverse_data (requests_get ev) (read_csv ev) 2024 ''POST'' fs = (Inr df, fs1)
       \<and> filter_and_prepare_data df = Inr df2 \<and> add_fantasy_points df2 = Inr df3
       \<and> save_to_supabase (requests_delete ev) (requests_post ev) (now ev) df3
            (fst connect_to_supabase) (snd connect_to_supabase) 2024 st = (Inl e, st1)
       \<longrightarrow> fst (main ev fs st) = Inl (TypeError ''exceptions must derive from BaseException''))
 \<and> (fst (main ev fs st) = Inr ()
      \<or> fst (main ev fs st) = Inl (TypeError ''exceptions must derive from BaseException''))"
  by (auto simp: main_def steps_def case_prod_beta split: sum.splits)

lemma load_example_timeout:
  "download_nflverse_data example_get_timeout example_parse 2024 ''POST'' Map.empty
     = (Inl (FileNotFoundError (''Could not download data and local file ''
                @ file_name 2024 @ '' does not exist.'')), Map.empty)"
  by (simp add: download_nflverse_data_def try_download_def example_get_timeout_def)

lemma load_example_404:
  "download_nflverse_data example_get_404 example_parse 2024 ''POST''
      [file_name 2024 \<mapsto> ''cached'']
     = (Inr example_no_group, [file_name 2024 \<mapsto> ''cached''])"
  by (simp add: download_nflverse_data_def try_download_def example_get_404_def
      raise_for_status_def pd_read_csv_def example_parse_def)

lemma load_example_ok:
  "download_nflverse_data example_get_ok example_parse 2024 ''POST'' Map.empty
     = (Inr example_raw, [file_name 2024 \<mapsto> ''remote''])"
  by (simp add: download_nflverse_data_def try_download_def example_get_ok_def
      raise_for_status_def pd_read_csv_def example_parse_def)

lemma load_example_special:
  "download_nflverse_data example_get_special example_parse 2024 ''POST'' Map.empty
     = (Inr example_special, [file_name 2024 \<mapsto> ''special''])"
  by (simp add: download_nflverse_data_def try_download_def example_get_special_def
      raise_for_status_def pd_read_csv_def example_parse_def)

lemma score_example_normalized:
  "add_fantasy_points example_normalized = Inl (KeyError ''passing_tds'')"
  by (simp add: add_fantasy_points_def rows_of_def row_at_def example_normalized_def
      List.map_filter_simps upt_rec calculate_fantasy_points_def calculate_off_points_def
      off_body_def offensive_groups_def)

lemma normalize_example_special: "filter_and_prepare_data example_special = Inr example_special"
  by (simp add: filter_and_prepare_data_def project_def available_cols_def columns_def
      example_special_def needed_cols_def getitem_cols_def getitem_col_def
      getitem_mask_def fill_numeric_def isin_def select_rows_def position_groups_def
      is_numeric_def)

lemma score_example_special: "add_fantasy_points example_special = Inr example_scored"
  by (simp add: add_fantasy_points_def rows_of_def row_at_def example_special_def
      example_scored_def List.map_filter_simps upt_rec calculate_fantasy_points_def
      offensive_groups_def defensive_groups_def setitem_def columns_def)

lemma save_example_scored:
  "fst (save_to_supabase example_delete example_post_none ts example_scored u h 2024 example_store)
     = Inl (Exception ''Failed to insert batch: no'')"
  by (simp add: save_to_supabase_def Let_def rows_of_def stamp_def setitem_def example_scored_def
      columns_def py_range.simps [of 0] py_range.simps [of batch_size] batch_size_def
      example_post_none_def)


text \<open>
  Four runs, one for each stage that can raise: no data and no cache; a cached table without
  the category column; a table whose quarterback lacks passing_tds; a store that rejects the
  insert. Each ends with the handler's TypeError.
\<close>

theorem main_replaces_stage_error_witness:
  "(download_nflverse_data example_get_timeout example_parse 2024 ''POST'' Map.empty
      = (Inl (FileNotFoundError (''Could not download data and local file ''
                @ file_name 2024 @ '' does not exist.'')), Map.empty)
    \<and> fst (main (example_env example_get_timeout) Map.empty example_store)
        = Inl (TypeError ''exceptions must derive from BaseException''))
 \<and> (filter_and_prepare_data example_no_group = Inl (KeyError ''position_group'')
    \<and> fst (main (example_env example_get_404) [file_name 2024 \<mapsto> ''cached''] example_store)
        = Inl (TypeError ''exceptions must derive from BaseException''))
 \<and> (add_fantasy_points example_normalized = Inl (KeyError ''passing_tds'')
    \<and> fst (main (example_env example_get_ok) Map.empty example_store)
        = Inl (TypeError ''exceptions must derive from BaseException''))
 \<and> (fst (save_to_supabase example_delete example_post_none ''2025-01-20T12:00:00''
            example_scored (fst connect_to_supabase) (snd connect_to_supabase) 2024
            example_store)
        = Inl (Exception ''Failed to insert batch: no'')
    \<and> fst (main (example_env example_get_special) Map.empty example_store)
        = Inl (TypeError ''exceptions must derive from BaseException''))"
proof -
  let ?TE = "TypeError ''exceptions must derive from BaseException''"
  have 1: "fst (main (example_env example_get_timeout) Map.empty example_store) = Inl ?TE"
    using load_example_timeout
      main_replaces_stage_error [of "example_env example_get_timeout" Map.empty example_store]
    by (simp add: example_env_def)
  have 2: "fst (main (example_env example_get_404) [file_name 2024 \<mapsto> ''cached''] example_store)
      = Inl ?TE"
    using load_example_404 normalize_example_no_group
      main_replaces_stage_error [of "example_env example_get_404"
        "[file_name 2024 \<mapsto> ''cached'']" example_store]
    by (simp add: example_env_def)
  have 3: "fst (main (example_env example_get_ok) Map.empty example_store) = Inl ?TE"
    using load_example_ok normalize_example_raw score_example_normalized
      main_replaces_stage_error [of "example_env example_get_ok" Map.empty example_store]
    by (simp add: example_env_def)
  let ?save = "save_to_supabase example_delete example_post_none ''2025-01-20T12:00:00''
            example_scored (fst connect_to_supabase) (snd connect_to_supabase) 2024
            example_store"
  have s: "fst ?save = Inl (Exception ''Failed to insert batch: no'')"
    by (rule save_example_scored)
  then have s': "\<exists>e st1. ?save = (Inl e, st1)"
    by (metis prod.collapse)
  have 4: "fst (main (example_env example_get_special) Map.empty example_store) = Inl ?TE"
    using load_example_special normalize_example_special score_example_special s'
      main_replaces_stage_error [of "example_env example_get_special" Map.empty example_store]
    by (simp add: example_env_def)
  from 1 2 3 4 s load_example_timeout normalize_example_no_group score_example_normalized
  show ?thesis by simp
qed


end
